theory Spec2Isabelle
  imports Main "HOL-Library.Sublist"
begin

section \<open>SameSite cookie issues (front_end/models/issues_manager/SameSiteCookieIssue.ts)\<close>

subsection \<open>JavaScript string and array primitives used by the source\<close>

text \<open>
  A JavaScript string is modelled as a \<^typ>\<open>string\<close>, one \<^typ>\<open>char\<close> per code unit.
  The source only measures, compares, slices and concatenates strings, so nothing below
  depends on what a code unit encodes.
\<close>

definition startsWith :: "string \<Rightarrow> string \<Rightarrow> bool" where
  "startsWith s searchString = (take (length searchString) s = searchString)"

definition endsWith :: "string \<Rightarrow> string \<Rightarrow> bool" where
  "endsWith s searchString =
     (length searchString \<le> length s \<and>
      drop (length s - length searchString) s = searchString)"

text \<open>\<open>s.substr(start, len)\<close> for indices inside the string.\<close>

definition substr :: "string \<Rightarrow> nat \<Rightarrow> nat \<Rightarrow> string" where
  "substr s start len = take len (drop start s)"

text \<open>\<open>parts.join(sep)\<close> on an array of strings.\<close>

fun join :: "string \<Rightarrow> string list \<Rightarrow> string" where
  "join sep [] = []"
| "join sep [x] = x"
| "join sep (x # y # ys) = x @ sep @ join sep (y # ys)"

text \<open>\<open>xs.includes(x)\<close>.\<close>

definition array_includes :: "'a list \<Rightarrow> 'a \<Rightarrow> bool" where
  "array_includes xs x = (x \<in> set xs)"

subsection \<open>Protocol data\<close>

text \<open>
  Modelled from the spec: the enums \<open>SameSiteCookieExclusionReason\<close>,
  \<open>SameSiteCookieWarningReason\<close>, \<open>SameSiteCookieOperation\<close> and the issue code
  \<open>InspectorIssueCode.SameSiteCookieIssue\<close> are declared in generated/protocol.ts, which is
  not among the source files. Their members are the ones the source file names, in its
  comparisons and in the keys of its description table; each member is a string enum whose
  value is its own name.
\<close>

datatype SameSiteCookieExclusionReason =
    ExcludeSameSiteUnspecifiedTreatedAsLax
  | ExcludeSameSiteNoneInsecure
  | ExcludeSameSiteLax
  | ExcludeSameSiteStrict
  | ExcludeInvalidSameParty

datatype SameSiteCookieWarningReason =
    WarnSameSiteUnspecifiedCrossSiteContext
  | WarnSameSiteNoneInsecure
  | WarnSameSiteUnspecifiedLaxAllowUnsafe
  | WarnSameSiteStrictLaxDowngradeStrict
  | WarnSameSiteStrictCrossDowngradeStrict
  | WarnSameSiteStrictCrossDowngradeLax
  | WarnSameSiteLaxCrossDowngradeStrict
  | WarnSameSiteLaxCrossDowngradeLax

datatype SameSiteCookieOperation = SetCookie | ReadCookie

text \<open>
  The parameter \<open>reason\<close> of the code resolver has the union type
  \<open>SameSiteCookieExclusionReason | SameSiteCookieWarningReason\<close>.
\<close>

datatype reason =
    ExclusionReason SameSiteCookieExclusionReason
  | WarningReason SameSiteCookieWarningReason

fun exclusionReasonString :: "SameSiteCookieExclusionReason \<Rightarrow> string" where
  "exclusionReasonString ExcludeSameSiteUnspecifiedTreatedAsLax = ''ExcludeSameSiteUnspecifiedTreatedAsLax''"
| "exclusionReasonString ExcludeSameSiteNoneInsecure = ''ExcludeSameSiteNoneInsecure''"
| "exclusionReasonString ExcludeSameSiteLax = ''ExcludeSameSiteLax''"
| "exclusionReasonString ExcludeSameSiteStrict = ''ExcludeSameSiteStrict''"
| "exclusionReasonString ExcludeInvalidSameParty = ''ExcludeInvalidSameParty''"

fun warningReasonString :: "SameSiteCookieWarningReason \<Rightarrow> string" where
  "warningReasonString WarnSameSiteUnspecifiedCrossSiteContext = ''WarnSameSiteUnspecifiedCrossSiteContext''"
| "warningReasonString WarnSameSiteNoneInsecure = ''WarnSameSiteNoneInsecure''"
| "warningReasonString WarnSameSiteUnspecifiedLaxAllowUnsafe = ''WarnSameSiteUnspecifiedLaxAllowUnsafe''"
| "warningReasonString WarnSameSiteStrictLaxDowngradeStrict = ''WarnSameSiteStrictLaxDowngradeStrict''"
| "warningReasonString WarnSameSiteStrictCrossDowngradeStrict = ''WarnSameSiteStrictCrossDowngradeStrict''"
| "warningReasonString WarnSameSiteStrictCrossDowngradeLax = ''WarnSameSiteStrictCrossDowngradeLax''"
| "warningReasonString WarnSameSiteLaxCrossDowngradeStrict = ''WarnSameSiteLaxCrossDowngradeStrict''"
| "warningReasonString WarnSameSiteLaxCrossDowngradeLax = ''WarnSameSiteLaxCrossDowngradeLax''"

fun reasonString :: "reason \<Rightarrow> string" where
  "reasonString (ExclusionReason r) = exclusionReasonString r"
| "reasonString (WarningReason w) = warningReasonString w"

fun operationString :: "SameSiteCookieOperation \<Rightarrow> string" where
  "operationString SetCookie = ''SetCookie''"
| "operationString ReadCookie = ''ReadCookie''"

definition InspectorIssueCode_SameSiteCookieIssue :: string where
  "InspectorIssueCode_SameSiteCookieIssue = ''SameSiteCookieIssue''"

subsection \<open>The code resolver\<close>

text \<open>
  \<open>const isURLSecure = cookieUrl && (cookieUrl.startsWith('https://') || cookieUrl.startsWith('wss://'))\<close>:
  an absent or empty \<open>cookieUrl\<close> is falsy.
\<close>

definition isURLSecure :: "string option \<Rightarrow> bool" where
  "isURLSecure cookieUrl =
     (case cookieUrl of
        None \<Rightarrow> False
      | Some u \<Rightarrow> u \<noteq> [] \<and> (startsWith u ''https://'' \<or> startsWith u ''wss://''))"

definition secure :: "string option \<Rightarrow> string" where
  "secure cookieUrl = (if isURLSecure cookieUrl then ''Secure'' else ''Insecure'')"

text \<open>
  \<open>codeForSameSiteDetails\<close>. The result \<open>string | null\<close> is a \<^typ>\<open>string option\<close>. The
  source tests \<open>warningReasons && warningReasons.length > 0\<close>, so the warning array may be
  absent; \<open>nonEmpty\<close> is that test. Each \<open>return\<close> of the source is one branch, in the
  source's order.
\<close>

definition codeForSameSiteDetails ::
  "reason \<Rightarrow> SameSiteCookieWarningReason list option \<Rightarrow> SameSiteCookieOperation \<Rightarrow>
   string option \<Rightarrow> string option" where
  "codeForSameSiteDetails reason warningReasons operation cookieUrl =
     (let nonEmpty = (case warningReasons of None \<Rightarrow> False | Some ws \<Rightarrow> length ws > 0);
          ws = (case warningReasons of None \<Rightarrow> [] | Some ws \<Rightarrow> ws)
      in
      if reason = ExclusionReason ExcludeSameSiteStrict \<or>
         reason = ExclusionReason ExcludeSameSiteLax \<or>
         reason = ExclusionReason ExcludeSameSiteUnspecifiedTreatedAsLax
      then
        if nonEmpty \<and> array_includes ws WarnSameSiteStrictLaxDowngradeStrict then
          Some (join ''::''
            [InspectorIssueCode_SameSiteCookieIssue, ''ExcludeNavigationContextDowngrade'',
             secure cookieUrl])
        else if nonEmpty \<and>
                (array_includes ws WarnSameSiteStrictCrossDowngradeStrict \<or>
                 array_includes ws WarnSameSiteStrictCrossDowngradeLax \<or>
                 array_includes ws WarnSameSiteLaxCrossDowngradeStrict \<or>
                 array_includes ws WarnSameSiteLaxCrossDowngradeLax) then
          Some (join ''::''
            [InspectorIssueCode_SameSiteCookieIssue, ''ExcludeContextDowngrade'',
             operationString operation, secure cookieUrl])
        else if reason = ExclusionReason ExcludeSameSiteUnspecifiedTreatedAsLax then
          Some (join ''::''
            [InspectorIssueCode_SameSiteCookieIssue, reasonString reason,
             operationString operation])
        else None
      else if reason = WarningReason WarnSameSiteStrictLaxDowngradeStrict then
        Some (join ''::''
          [InspectorIssueCode_SameSiteCookieIssue, reasonString reason, secure cookieUrl])
      else if reason = WarningReason WarnSameSiteStrictCrossDowngradeStrict \<or>
              reason = WarningReason WarnSameSiteStrictCrossDowngradeLax \<or>
              reason = WarningReason WarnSameSiteLaxCrossDowngradeLax \<or>
              reason = WarningReason WarnSameSiteLaxCrossDowngradeStrict then
        Some (join ''::''
          [InspectorIssueCode_SameSiteCookieIssue, ''WarnCrossDowngrade'',
           operationString operation, secure cookieUrl])
      else
        Some (join ''::''
          [InspectorIssueCode_SameSiteCookieIssue, reasonString reason,
           operationString operation]))"

subsection \<open>Third-party attribution\<close>

definition isSubdomainOf :: "string \<Rightarrow> string \<Rightarrow> bool" where
  "isSubdomainOf subdomain superdomain =
     (if length subdomain \<le> length superdomain then subdomain = superdomain
      else if \<not> endsWith subdomain superdomain then False
      else
        (let subdomainWithoutSuperdomian =
               substr subdomain 0 (length subdomain - length superdomain)
         in endsWith subdomainWithoutSuperdomian ''.''))"

text \<open>
  Modelled from the spec: the classes \<open>SDK.ResourceTreeModel.ResourceTreeFrame\<close> and
  \<open>Common.ParsedURL.ParsedURL\<close> are not among the source files. A frame is represented by
  what its \<open>domainAndRegistry()\<close> method returns, the registrable domain of the top frame,
  and a parsed URL by what its \<open>domain()\<close> method returns; the source calls nothing else on
  them. The static \<open>ParsedURL.fromString\<close>, which returns \<open>null\<close> for a string that is not
  a valid URL, is the parameter \<open>fromString\<close>. \<open>!cookieUrl\<close> holds for an absent and for
  an empty string.
\<close>

record ResourceTreeFrame =
  domainAndRegistry :: string

record ParsedURL =
  urlDomain :: string

definition isCausedByThirdParty ::
  "(string \<Rightarrow> ParsedURL option) \<Rightarrow> ResourceTreeFrame option \<Rightarrow> string option \<Rightarrow> bool" where
  "isCausedByThirdParty fromString topFrame cookieUrl =
     (case topFrame of
        None \<Rightarrow> True
      | Some frame \<Rightarrow>
          (case cookieUrl of
             None \<Rightarrow> False
           | Some u \<Rightarrow>
               if u = [] \<or> domainAndRegistry frame = [] then False
               else
                 (case fromString u of
                    None \<Rightarrow> False
                  | Some parsedCookieUrl \<Rightarrow>
                      \<not> isSubdomainOf (urlDomain parsedCookieUrl) (domainAndRegistry frame))))"

subsection \<open>Issue details and issues\<close>

text \<open>
  Modelled from the spec: the interfaces \<open>AffectedCookie\<close>, \<open>AffectedRequest\<close>,
  \<open>SameSiteCookieIssueDetails\<close>, \<open>InspectorIssueDetails\<close> and \<open>InspectorIssue\<close> are declared
  in generated/protocol.ts, which is not among the source files. The records hold the
  fields the source file reads. A field the source tests for presence before use
  (\<open>cookie\<close>, \<open>rawCookieLine\<close>, \<open>request\<close>, \<open>cookieUrl\<close>, the two reason arrays,
  \<open>sameSiteCookieIssueDetails\<close>) is an option.
\<close>

record AffectedCookie =
  name :: string
  path :: string
  domain :: string

record AffectedRequest =
  requestId :: string

record SameSiteCookieIssueDetails =
  cookie :: "AffectedCookie option"
  rawCookieLine :: "string option"
  cookieWarningReasons :: "SameSiteCookieWarningReason list option"
  cookieExclusionReasons :: "SameSiteCookieExclusionReason list option"
  operation :: SameSiteCookieOperation
  cookieUrl :: "string option"
  request :: "AffectedRequest option"

record InspectorIssueDetails =
  sameSiteCookieIssueDetails :: "SameSiteCookieIssueDetails option"

record InspectorIssue =
  details :: InspectorIssueDetails

text \<open>
  An instance of the class \<open>SameSiteCookieIssue\<close>: the private field \<open>issueDetails\<close>, and
  the two constructor arguments passed on to the base class, the code and the issues model,
  which the source never inspects (type \<open>'m\<close>).

  Modelled from the spec: the base class \<open>Issue\<close> and the enum \<open>IssueKind\<close> are declared
  in Issue.ts, which is not among the source files. \<open>code()\<close> returns the code the issue was
  constructed with (the \<open>code\<close> of the specification's classified issue), and \<open>IssueKind\<close>
  has the two members the source names.
\<close>

record 'm SameSiteCookieIssue =
  code :: string
  issueDetails :: SameSiteCookieIssueDetails
  issuesModel :: 'm

datatype IssueKind = PageError | BreakingChange

definition cookieId :: "'m SameSiteCookieIssue \<Rightarrow> string" where
  "cookieId this =
     (case cookie (issueDetails this) of
        Some c \<Rightarrow> domain c @ '';'' @ path c @ '';'' @ name c
      | None \<Rightarrow>
          (case rawCookieLine (issueDetails this) of
             Some line \<Rightarrow> line
           | None \<Rightarrow> ''no-cookie-info''))"

text \<open>The local constant \<open>requestId\<close> of \<open>primaryKey\<close>.\<close>

definition primaryKeyRequestId :: "'m SameSiteCookieIssue \<Rightarrow> string" where
  "primaryKeyRequestId this =
     (case request (issueDetails this) of
        Some r \<Rightarrow> requestId r
      | None \<Rightarrow> ''no-request'')"

definition primaryKey :: "'m SameSiteCookieIssue \<Rightarrow> string" where
  "primaryKey this =
     code this @ ''-('' @ cookieId this @ '')-('' @ primaryKeyRequestId this @ '')''"

text \<open>
  \<open>if (code)\<close> on a \<open>string | null\<close>: \<open>null\<close> and the empty string are falsy. The two
  \<open>for ... of\<close> loops of \<open>createIssuesFromSameSiteDetails\<close> push onto \<open>issues\<close>; each is a
  recursion over the array with \<open>issues\<close> as accumulator.
\<close>

fun pushIfCode ::
  "string option \<Rightarrow> SameSiteCookieIssueDetails \<Rightarrow> 'm \<Rightarrow> 'm SameSiteCookieIssue list \<Rightarrow>
   'm SameSiteCookieIssue list" where
  "pushIfCode None sameSiteDetails model issues = issues"
| "pushIfCode (Some c) sameSiteDetails model issues =
     (if c \<noteq> [] then
        issues @ [\<lparr>code = c, issueDetails = sameSiteDetails, issuesModel = model\<rparr>]
      else issues)"

fun exclusionLoop ::
  "SameSiteCookieIssueDetails \<Rightarrow> 'm \<Rightarrow> SameSiteCookieExclusionReason list \<Rightarrow>
   'm SameSiteCookieIssue list \<Rightarrow> 'm SameSiteCookieIssue list" where
  "exclusionLoop sameSiteDetails model [] issues = issues"
| "exclusionLoop sameSiteDetails model (exclusionReason # rest) issues =
     exclusionLoop sameSiteDetails model rest
       (pushIfCode
          (codeForSameSiteDetails (ExclusionReason exclusionReason)
             (cookieWarningReasons sameSiteDetails) (operation sameSiteDetails)
             (cookieUrl sameSiteDetails))
          sameSiteDetails model issues)"

fun warningLoop ::
  "SameSiteCookieIssueDetails \<Rightarrow> 'm \<Rightarrow> SameSiteCookieWarningReason list \<Rightarrow>
   'm SameSiteCookieIssue list \<Rightarrow> 'm SameSiteCookieIssue list" where
  "warningLoop sameSiteDetails model [] issues = issues"
| "warningLoop sameSiteDetails model (warningReason # rest) issues =
     warningLoop sameSiteDetails model rest
       (pushIfCode
          (codeForSameSiteDetails (WarningReason warningReason) (Some [])
             (operation sameSiteDetails) (cookieUrl sameSiteDetails))
          sameSiteDetails model issues)"

definition createIssuesFromSameSiteDetails ::
  "SameSiteCookieIssueDetails \<Rightarrow> 'm \<Rightarrow> 'm SameSiteCookieIssue list" where
  "createIssuesFromSameSiteDetails sameSiteDetails model =
     (case cookieExclusionReasons sameSiteDetails of
        Some (r # rs) \<Rightarrow> exclusionLoop sameSiteDetails model (r # rs) []
      | _ \<Rightarrow>
          (case cookieWarningReasons sameSiteDetails of
             Some ws \<Rightarrow> warningLoop sameSiteDetails model ws []
           | None \<Rightarrow> []))"

text \<open>
  \<open>getKind\<close>: \<open>this.issueDetails.cookieExclusionReasons?.length > 0\<close>; on an absent array
  the comparison \<open>undefined > 0\<close> is false.
\<close>

definition getKind :: "'m SameSiteCookieIssue \<Rightarrow> IssueKind" where
  "getKind this =
     (if (case cookieExclusionReasons (issueDetails this) of
            None \<Rightarrow> False
          | Some rs \<Rightarrow> length rs > 0)
      then PageError else BreakingChange)"

text \<open>
  \<open>fromInspectorIssue\<close> returns the issues; the first component is what the call writes
  with \<open>console.warn\<close>.
\<close>

definition fromInspectorIssue ::
  "'m \<Rightarrow> InspectorIssue \<Rightarrow> string list \<times> 'm SameSiteCookieIssue list" where
  "fromInspectorIssue model inspectorIssue =
     (case sameSiteCookieIssueDetails (details inspectorIssue) of
        None \<Rightarrow> ([''SameSite issue without details received.''], [])
      | Some sameSiteDetails \<Rightarrow>
          ([], createIssuesFromSameSiteDetails sameSiteDetails model))"

text \<open>
  The method \<open>isCausedByThirdParty()\<close> of the class, given the top frame that
  \<open>FrameManager.instance().getTopFrame()\<close> returns.
\<close>

definition issueIsCausedByThirdParty ::
  "(string \<Rightarrow> ParsedURL option) \<Rightarrow> ResourceTreeFrame option \<Rightarrow> 'm SameSiteCookieIssue \<Rightarrow> bool" where
  "issueIsCausedByThirdParty fromString topFrame this =
     isCausedByThirdParty fromString topFrame (cookieUrl (issueDetails this))"

section \<open>Properties\<close>

subsection \<open>The string primitives agree with the library's prefix and suffix orders\<close>

lemma endsWith_suffix: "endsWith s t \<longleftrightarrow> suffix t s"
  unfolding endsWith_def suffix_def
  by (metis append_eq_conv_conj append_take_drop_id diff_add_inverse2 length_append
      length_drop le_add2)

lemma startsWith_prefix: "startsWith s t \<longleftrightarrow> prefix t s"
  unfolding startsWith_def prefix_def
  by (metis append_eq_conv_conj append_take_drop_id)

lemma array_includes_set: "array_includes xs x \<longleftrightarrow> x \<in> set xs"
  by (simp add: array_includes_def)

subsection \<open>Subdomain matching\<close>

text \<open>
  Claim C2. \<open>isSubdomainOf sub super\<close> holds exactly when either \<open>sub\<close> is no longer than
  \<open>super\<close> and the two are equal, or \<open>sub\<close> is strictly longer, \<open>super\<close> is a suffix of
  \<open>sub\<close>, and the character of \<open>sub\<close> just before that suffix is a dot. The four examples
  of the specification evaluate as it says.
\<close>

theorem isSubdomainOf_characterisation:
  "(isSubdomainOf sub super \<longleftrightarrow>
      (length sub \<le> length super \<and> sub = super) \<or>
      (length super < length sub \<and> suffix super sub \<and>
       sub ! (length sub - length super - 1) = CHR ''.'')) \<and>
   isSubdomainOf ''a.b.com'' ''b.com'' = True \<and>
   isSubdomainOf ''evilb.com'' ''b.com'' = False \<and>
   isSubdomainOf ''b.com'' ''b.com'' = True \<and>
   isSubdomainOf ''x.com'' ''b.com'' = False"
proof -
  have general: "isSubdomainOf sub super \<longleftrightarrow>
      (length sub \<le> length super \<and> sub = super) \<or>
      (length super < length sub \<and> suffix super sub \<and>
       sub ! (length sub - length super - 1) = CHR ''.'')"
  proof (cases "length sub \<le> length super")
    case True
    then show ?thesis by (auto simp: isSubdomainOf_def)
  next
    case False
    then have lt: "length super < length sub" by simp
    let ?n = "length sub - length super"
    have pos: "0 < ?n" "?n \<le> length sub" using lt by auto
    have k: "?n - 1 < length sub" using lt by simp
    have one: "?n - (?n - 1) = 1" using pos by simp
    have "drop (?n - 1) (take ?n sub) = take 1 (drop (?n - 1) sub)"
      by (simp only: drop_take one)
    also have "\<dots> = [sub ! (?n - 1)]"
      using Cons_nth_drop_Suc [OF k, symmetric] by simp
    finally have d: "drop (?n - 1) (take ?n sub) = [sub ! (?n - 1)]" .
    have len: "length (take ?n sub) = ?n" by simp
    have "endsWith (take ?n sub) ''.'' \<longleftrightarrow>
            1 \<le> ?n \<and> drop (?n - 1) (take ?n sub) = ''.''"
      unfolding endsWith_def len by simp
    then have "endsWith (take ?n sub) ''.'' \<longleftrightarrow> sub ! (?n - 1) = CHR ''.''"
      unfolding d using pos by simp
    then show ?thesis using False lt
      by (simp add: isSubdomainOf_def substr_def endsWith_suffix)
  qed
  have examples:
    "isSubdomainOf ''a.b.com'' ''b.com'' = True"
    "isSubdomainOf ''evilb.com'' ''b.com'' = False"
    "isSubdomainOf ''b.com'' ''b.com'' = True"
    "isSubdomainOf ''x.com'' ''b.com'' = False"
    by (simp_all add: isSubdomainOf_def endsWith_def substr_def)
  from general examples show ?thesis by blast
qed

subsection \<open>The code resolver\<close>

text \<open>
  Claim C3. For each of the three SameSite exclusion reasons, any operation and any cookie
  URL: when the warning set contains \<open>WarnSameSiteStrictLaxDowngradeStrict\<close>, the resolver
  returns the navigation-downgrade code with the secure label, whatever else the warning
  set contains; so the result is not the \<open>ExcludeContextDowngrade\<close> code.
\<close>

theorem codeForSameSiteDetails_navigation_downgrade:
  assumes "reason \<in> {ExclusionReason ExcludeSameSiteStrict, ExclusionReason ExcludeSameSiteLax,
                      ExclusionReason ExcludeSameSiteUnspecifiedTreatedAsLax}"
      and "WarnSameSiteStrictLaxDowngradeStrict \<in> set ws"
  shows "codeForSameSiteDetails reason (Some ws) oper url =
           Some (''SameSiteCookieIssue::ExcludeNavigationContextDowngrade::'' @ secure url) \<and>
         codeForSameSiteDetails reason (Some ws) oper url \<noteq>
           Some (''SameSiteCookieIssue::ExcludeContextDowngrade::'' @ operationString oper @
                 ''::'' @ secure url)"
  using assms
  by (auto simp: codeForSameSiteDetails_def Let_def array_includes_set secure_def
        InspectorIssueCode_SameSiteCookieIssue_def)

theorem codeForSameSiteDetails_navigation_downgrade_witness:
  "codeForSameSiteDetails (ExclusionReason ExcludeSameSiteLax)
     (Some [WarnSameSiteStrictLaxDowngradeStrict, WarnSameSiteLaxCrossDowngradeLax])
     SetCookie (Some ''https://a.com'') =
   Some ''SameSiteCookieIssue::ExcludeNavigationContextDowngrade::Secure''"
  using codeForSameSiteDetails_navigation_downgrade
    [of "ExclusionReason ExcludeSameSiteLax"
      "[WarnSameSiteStrictLaxDowngradeStrict, WarnSameSiteLaxCrossDowngradeLax]"
      SetCookie "Some ''https://a.com''"]
  by (simp add: secure_def isURLSecure_def startsWith_def)

text \<open>
  Claim C4. When the warning set (absent, empty or not) holds none of the five downgrade
  warnings, the resolver returns the code
  \<open>SameSiteCookieIssue::ExcludeSameSiteUnspecifiedTreatedAsLax::{operation}\<close> for the reason
  \<open>ExcludeSameSiteUnspecifiedTreatedAsLax\<close> and no code for \<open>ExcludeSameSiteStrict\<close> and
  \<open>ExcludeSameSiteLax\<close>; in particular \<open>ExcludeSameSiteStrict\<close> with an empty warning set,
  \<open>ReadCookie\<close> and no URL resolves to none.
\<close>

theorem codeForSameSiteDetails_uncorroborated:
  assumes "set (case warningReasons of None \<Rightarrow> [] | Some ws \<Rightarrow> ws) \<inter>
             {WarnSameSiteStrictLaxDowngradeStrict, WarnSameSiteStrictCrossDowngradeStrict,
              WarnSameSiteStrictCrossDowngradeLax, WarnSameSiteLaxCrossDowngradeStrict,
              WarnSameSiteLaxCrossDowngradeLax} = {}"
  shows "codeForSameSiteDetails (ExclusionReason ExcludeSameSiteUnspecifiedTreatedAsLax)
           warningReasons oper url =
           Some (''SameSiteCookieIssue::ExcludeSameSiteUnspecifiedTreatedAsLax::'' @
                 operationString oper) \<and>
         codeForSameSiteDetails (ExclusionReason ExcludeSameSiteStrict)
           warningReasons oper url = None \<and>
         codeForSameSiteDetails (ExclusionReason ExcludeSameSiteLax)
           warningReasons oper url = None \<and>
         codeForSameSiteDetails (ExclusionReason ExcludeSameSiteStrict) (Some [])
           ReadCookie None = None"
  using assms
  by (auto simp: codeForSameSiteDetails_def Let_def array_includes_set
        InspectorIssueCode_SameSiteCookieIssue_def split: option.splits)

theorem codeForSameSiteDetails_uncorroborated_witness:
  "codeForSameSiteDetails (ExclusionReason ExcludeSameSiteUnspecifiedTreatedAsLax)
     (Some [WarnSameSiteNoneInsecure]) SetCookie (Some ''http://a.com'') =
     Some ''SameSiteCookieIssue::ExcludeSameSiteUnspecifiedTreatedAsLax::SetCookie'' \<and>
   codeForSameSiteDetails (ExclusionReason ExcludeSameSiteStrict)
     (Some [WarnSameSiteNoneInsecure]) SetCookie (Some ''http://a.com'') = None \<and>
   codeForSameSiteDetails (ExclusionReason ExcludeSameSiteLax)
     (Some [WarnSameSiteNoneInsecure]) SetCookie (Some ''http://a.com'') = None"
  using codeForSameSiteDetails_uncorroborated
    [of "Some [WarnSameSiteNoneInsecure]" SetCookie "Some ''http://a.com''"]
  by simp

text \<open>The secure flag reads the scheme of the cookie URL.\<close>

lemma isURLSecure_prefix:
  "isURLSecure url \<longleftrightarrow> (\<exists>u. url = Some u \<and> (prefix ''https://'' u \<or> prefix ''wss://'' u))"
  by (cases url) (auto simp: isURLSecure_def startsWith_prefix)

text \<open>
  Claim C6. The secure label is \<open>Secure\<close> exactly when the cookie URL is present and
  starts with \<open>https://\<close> or \<open>wss://\<close>, and \<open>Insecure\<close> otherwise. Every code the resolver
  returns is either one of the four downgrade-family codes, which end in the secure label,
  or the generic code \<open>SameSiteCookieIssue::{reason}::{operation}\<close>, which ends in neither
  \<open>::Secure\<close> nor \<open>::Insecure\<close>. The reasons outside the SameSite exclusions and the
  downgrade warnings always take the generic path; so does \<open>WarnSameSiteNoneInsecure\<close> on
  \<open>SetCookie\<close> with the URL \<open>http://a.com\<close>. Each downgrade family does carry the label:
  \<open>WarnSameSiteStrictLaxDowngradeStrict\<close> resolves to its own name followed by the label; the
  four cross-downgrade warnings resolve to \<open>WarnCrossDowngrade\<close>, the operation and the
  label; a SameSite exclusion with the navigation-downgrade warning resolves to
  \<open>ExcludeNavigationContextDowngrade\<close> and the label; and a SameSite exclusion with a
  cross-downgrade warning and no navigation-downgrade warning resolves to
  \<open>ExcludeContextDowngrade\<close>, the operation and the label.
\<close>

theorem secure_label_scope:
  "secure url =
     (if (\<exists>u. url = Some u \<and> (prefix ''https://'' u \<or> prefix ''wss://'' u))
      then ''Secure'' else ''Insecure'') \<and>
   (\<forall>c. codeForSameSiteDetails reason warningReasons oper url = Some c \<longrightarrow>
      c \<in> {''SameSiteCookieIssue::ExcludeNavigationContextDowngrade::'' @ secure url,
           ''SameSiteCookieIssue::ExcludeContextDowngrade::'' @ operationString oper @ ''::'' @
             secure url,
           ''SameSiteCookieIssue::WarnSameSiteStrictLaxDowngradeStrict::'' @ secure url,
           ''SameSiteCookieIssue::WarnCrossDowngrade::'' @ operationString oper @ ''::'' @
             secure url} \<or>
      c = ''SameSiteCookieIssue::'' @ reasonString reason @ ''::'' @ operationString oper \<and>
      \<not> suffix ''::Secure'' c \<and> \<not> suffix ''::Insecure'' c) \<and>
   (reason \<in> {ExclusionReason ExcludeSameSiteNoneInsecure, ExclusionReason ExcludeInvalidSameParty,
               WarningReason WarnSameSiteUnspecifiedCrossSiteContext,
               WarningReason WarnSameSiteNoneInsecure,
               WarningReason WarnSameSiteUnspecifiedLaxAllowUnsafe} \<longrightarrow>
      codeForSameSiteDetails reason warningReasons oper url =
        Some (''SameSiteCookieIssue::'' @ reasonString reason @ ''::'' @ operationString oper)) \<and>
   codeForSameSiteDetails (WarningReason WarnSameSiteNoneInsecure) (Some []) SetCookie
     (Some ''http://a.com'') = Some ''SameSiteCookieIssue::WarnSameSiteNoneInsecure::SetCookie'' \<and>
   codeForSameSiteDetails (WarningReason WarnSameSiteStrictLaxDowngradeStrict)
     warningReasons oper url =
     Some (''SameSiteCookieIssue::WarnSameSiteStrictLaxDowngradeStrict::'' @ secure url) \<and>
   (reason \<in> {WarningReason WarnSameSiteStrictCrossDowngradeStrict,
               WarningReason WarnSameSiteStrictCrossDowngradeLax,
               WarningReason WarnSameSiteLaxCrossDowngradeStrict,
               WarningReason WarnSameSiteLaxCrossDowngradeLax} \<longrightarrow>
      codeForSameSiteDetails reason warningReasons oper url =
        Some (''SameSiteCookieIssue::WarnCrossDowngrade::'' @ operationString oper @ ''::'' @
              secure url)) \<and>
   (reason \<in> {ExclusionReason ExcludeSameSiteStrict, ExclusionReason ExcludeSameSiteLax,
               ExclusionReason ExcludeSameSiteUnspecifiedTreatedAsLax} \<and>
    WarnSameSiteStrictLaxDowngradeStrict \<in> set ws \<longrightarrow>
      codeForSameSiteDetails reason (Some ws) oper url =
        Some (''SameSiteCookieIssue::ExcludeNavigationContextDowngrade::'' @ secure url)) \<and>
   (reason \<in> {ExclusionReason ExcludeSameSiteStrict, ExclusionReason ExcludeSameSiteLax,
               ExclusionReason ExcludeSameSiteUnspecifiedTreatedAsLax} \<and>
    WarnSameSiteStrictLaxDowngradeStrict \<notin> set ws \<and>
    set ws \<inter> {WarnSameSiteStrictCrossDowngradeStrict, WarnSameSiteStrictCrossDowngradeLax,
              WarnSameSiteLaxCrossDowngradeStrict, WarnSameSiteLaxCrossDowngradeLax} \<noteq> {} \<longrightarrow>
      codeForSameSiteDetails reason (Some ws) oper url =
        Some (''SameSiteCookieIssue::ExcludeContextDowngrade::'' @ operationString oper @ ''::'' @
              secure url)) \<and>
   (suffix ''::Secure'' (''::'' @ secure url) \<or> suffix ''::Insecure'' (''::'' @ secure url))"
proof -
  have a: "secure url =
     (if (\<exists>u. url = Some u \<and> (prefix ''https://'' u \<or> prefix ''wss://'' u))
      then ''Secure'' else ''Insecure'')"
    unfolding secure_def isURLSecure_prefix ..
  have nosuf: "\<not> suffix ''::Secure'' (''SameSiteCookieIssue::'' @ reasonString reason @ ''::'' @ operationString oper)
      \<and> \<not> suffix ''::Insecure'' (''SameSiteCookieIssue::'' @ reasonString reason @ ''::'' @ operationString oper)"
    by (cases oper) (simp_all add: suffix_to_prefix)
  have b: "codeForSameSiteDetails reason warningReasons oper url = Some c \<Longrightarrow>
      c \<in> {''SameSiteCookieIssue::ExcludeNavigationContextDowngrade::'' @ secure url,
           ''SameSiteCookieIssue::ExcludeContextDowngrade::'' @ operationString oper @ ''::'' @
             secure url,
           ''SameSiteCookieIssue::WarnSameSiteStrictLaxDowngradeStrict::'' @ secure url,
           ''SameSiteCookieIssue::WarnCrossDowngrade::'' @ operationString oper @ ''::'' @
             secure url} \<or>
      c = ''SameSiteCookieIssue::'' @ reasonString reason @ ''::'' @ operationString oper" for c
    by (auto simp: codeForSameSiteDetails_def Let_def InspectorIssueCode_SameSiteCookieIssue_def
        split: if_splits)
  have c: "reason \<in> {ExclusionReason ExcludeSameSiteNoneInsecure, ExclusionReason ExcludeInvalidSameParty,
               WarningReason WarnSameSiteUnspecifiedCrossSiteContext,
               WarningReason WarnSameSiteNoneInsecure,
               WarningReason WarnSameSiteUnspecifiedLaxAllowUnsafe} \<Longrightarrow>
      codeForSameSiteDetails reason warningReasons oper url =
        Some (''SameSiteCookieIssue::'' @ reasonString reason @ ''::'' @ operationString oper)"
    by (auto simp: codeForSameSiteDetails_def Let_def InspectorIssueCode_SameSiteCookieIssue_def)
  have d: "codeForSameSiteDetails (WarningReason WarnSameSiteNoneInsecure) (Some []) SetCookie
     (Some ''http://a.com'') = Some ''SameSiteCookieIssue::WarnSameSiteNoneInsecure::SetCookie''"
    by (simp add: codeForSameSiteDetails_def Let_def InspectorIssueCode_SameSiteCookieIssue_def)
  have e: "codeForSameSiteDetails (WarningReason WarnSameSiteStrictLaxDowngradeStrict)
     warningReasons oper url =
     Some (''SameSiteCookieIssue::WarnSameSiteStrictLaxDowngradeStrict::'' @ secure url)"
    by (simp add: codeForSameSiteDetails_def Let_def InspectorIssueCode_SameSiteCookieIssue_def)
  have f: "reason \<in> {WarningReason WarnSameSiteStrictCrossDowngradeStrict,
               WarningReason WarnSameSiteStrictCrossDowngradeLax,
               WarningReason WarnSameSiteLaxCrossDowngradeStrict,
               WarningReason WarnSameSiteLaxCrossDowngradeLax} \<Longrightarrow>
      codeForSameSiteDetails reason warningReasons oper url =
        Some (''SameSiteCookieIssue::WarnCrossDowngrade::'' @ operationString oper @ ''::'' @
              secure url)"
    by (auto simp: codeForSameSiteDetails_def Let_def InspectorIssueCode_SameSiteCookieIssue_def)
  have g: "reason \<in> {ExclusionReason ExcludeSameSiteStrict, ExclusionReason ExcludeSameSiteLax,
               ExclusionReason ExcludeSameSiteUnspecifiedTreatedAsLax} \<and>
    WarnSameSiteStrictLaxDowngradeStrict \<in> set ws \<Longrightarrow>
      codeForSameSiteDetails reason (Some ws) oper url =
        Some (''SameSiteCookieIssue::ExcludeNavigationContextDowngrade::'' @ secure url)"
    by (auto simp: codeForSameSiteDetails_def Let_def array_includes_set
        InspectorIssueCode_SameSiteCookieIssue_def)
  have h: "reason \<in> {ExclusionReason ExcludeSameSiteStrict, ExclusionReason ExcludeSameSiteLax,
               ExclusionReason ExcludeSameSiteUnspecifiedTreatedAsLax} \<and>
    WarnSameSiteStrictLaxDowngradeStrict \<notin> set ws \<and>
    set ws \<inter> {WarnSameSiteStrictCrossDowngradeStrict, WarnSameSiteStrictCrossDowngradeLax,
              WarnSameSiteLaxCrossDowngradeStrict, WarnSameSiteLaxCrossDowngradeLax} \<noteq> {} \<Longrightarrow>
      codeForSameSiteDetails reason (Some ws) oper url =
        Some (''SameSiteCookieIssue::ExcludeContextDowngrade::'' @ operationString oper @ ''::'' @
              secure url)"
    by (auto simp: codeForSameSiteDetails_def Let_def array_includes_set
        InspectorIssueCode_SameSiteCookieIssue_def)
  have i: "suffix ''::Secure'' (''::'' @ secure url) \<or> suffix ''::Insecure'' (''::'' @ secure url)"
    by (simp add: secure_def)
  from b nosuf have b': "\<forall>c. codeForSameSiteDetails reason warningReasons oper url = Some c \<longrightarrow>
      c \<in> {''SameSiteCookieIssue::ExcludeNavigationContextDowngrade::'' @ secure url,
           ''SameSiteCookieIssue::ExcludeContextDowngrade::'' @ operationString oper @ ''::'' @
             secure url,
           ''SameSiteCookieIssue::WarnSameSiteStrictLaxDowngradeStrict::'' @ secure url,
           ''SameSiteCookieIssue::WarnCrossDowngrade::'' @ operationString oper @ ''::'' @
             secure url} \<or>
      c = ''SameSiteCookieIssue::'' @ reasonString reason @ ''::'' @ operationString oper \<and>
      \<not> suffix ''::Secure'' c \<and> \<not> suffix ''::Insecure'' c"
    by blast
  from c have c': "reason \<in> {ExclusionReason ExcludeSameSiteNoneInsecure, ExclusionReason ExcludeInvalidSameParty,
               WarningReason WarnSameSiteUnspecifiedCrossSiteContext,
               WarningReason WarnSameSiteNoneInsecure,
               WarningReason WarnSameSiteUnspecifiedLaxAllowUnsafe} \<longrightarrow>
      codeForSameSiteDetails reason warningReasons oper url =
        Some (''SameSiteCookieIssue::'' @ reasonString reason @ ''::'' @ operationString oper)"
    by (rule impI)
  from f have f': "reason \<in> {WarningReason WarnSameSiteStrictCrossDowngradeStrict,
               WarningReason WarnSameSiteStrictCrossDowngradeLax,
               WarningReason WarnSameSiteLaxCrossDowngradeStrict,
               WarningReason WarnSameSiteLaxCrossDowngradeLax} \<longrightarrow>
      codeForSameSiteDetails reason warningReasons oper url =
        Some (''SameSiteCookieIssue::WarnCrossDowngrade::'' @ operationString oper @ ''::'' @
              secure url)"
    by (rule impI)
  from g have g': "reason \<in> {ExclusionReason ExcludeSameSiteStrict, ExclusionReason ExcludeSameSiteLax,
               ExclusionReason ExcludeSameSiteUnspecifiedTreatedAsLax} \<and>
    WarnSameSiteStrictLaxDowngradeStrict \<in> set ws \<longrightarrow>
      codeForSameSiteDetails reason (Some ws) oper url =
        Some (''SameSiteCookieIssue::ExcludeNavigationContextDowngrade::'' @ secure url)"
    by (rule impI)
  from h have h': "reason \<in> {ExclusionReason ExcludeSameSiteStrict, ExclusionReason ExcludeSameSiteLax,
               ExclusionReason ExcludeSameSiteUnspecifiedTreatedAsLax} \<and>
    WarnSameSiteStrictLaxDowngradeStrict \<notin> set ws \<and>
    set ws \<inter> {WarnSameSiteStrictCrossDowngradeStrict, WarnSameSiteStrictCrossDowngradeLax,
              WarnSameSiteLaxCrossDowngradeStrict, WarnSameSiteLaxCrossDowngradeLax} \<noteq> {} \<longrightarrow>
      codeForSameSiteDetails reason (Some ws) oper url =
        Some (''SameSiteCookieIssue::ExcludeContextDowngrade::'' @ operationString oper @ ''::'' @
              secure url)"
    by (rule impI)
  show ?thesis
    by (intro conjI) (rule a b' c' d e f' g' h' i)+
qed

theorem secure_label_scope_witness:
  "secure (Some ''http://a.com'') = ''Insecure'' \<and>
   secure (Some ''wss://a.com'') = ''Secure'' \<and>
   codeForSameSiteDetails (WarningReason WarnSameSiteNoneInsecure) (Some []) SetCookie
     (Some ''http://a.com'') = Some ''SameSiteCookieIssue::WarnSameSiteNoneInsecure::SetCookie'' \<and>
   \<not> suffix ''::Insecure'' ''SameSiteCookieIssue::WarnSameSiteNoneInsecure::SetCookie'' \<and>
   codeForSameSiteDetails (WarningReason WarnSameSiteStrictLaxDowngradeStrict) (Some []) SetCookie
     (Some ''wss://a.com'') =
     Some ''SameSiteCookieIssue::WarnSameSiteStrictLaxDowngradeStrict::Secure'' \<and>
   codeForSameSiteDetails (WarningReason WarnSameSiteLaxCrossDowngradeLax) (Some []) ReadCookie
     (Some ''http://a.com'') = Some ''SameSiteCookieIssue::WarnCrossDowngrade::ReadCookie::Insecure'' \<and>
   codeForSameSiteDetails (ExclusionReason ExcludeSameSiteStrict)
     (Some [WarnSameSiteNoneInsecure, WarnSameSiteStrictLaxDowngradeStrict]) ReadCookie
     (Some ''http://a.com'') =
     Some ''SameSiteCookieIssue::ExcludeNavigationContextDowngrade::Insecure'' \<and>
   codeForSameSiteDetails (ExclusionReason ExcludeSameSiteLax)
     (Some [WarnSameSiteStrictCrossDowngradeLax]) SetCookie (Some ''wss://a.com'') =
     Some ''SameSiteCookieIssue::ExcludeContextDowngrade::SetCookie::Secure''"
proof -
  note insecure = secure_label_scope [of "Some ''http://a.com''" _ "Some []" _ "[]",
      THEN conjunct1]
  note secure = secure_label_scope [of "Some ''wss://a.com''" _ "Some []" _ "[]",
      THEN conjunct1]
  have s1: "secure (Some ''http://a.com'') = ''Insecure''" using insecure by simp
  have s2: "secure (Some ''wss://a.com'') = ''Secure''" using secure by simp
  note generic = secure_label_scope
      [of "Some ''http://a.com''" "WarningReason WarnSameSiteNoneInsecure" "Some []" SetCookie "[]"]
  have g1: "codeForSameSiteDetails (WarningReason WarnSameSiteNoneInsecure) (Some []) SetCookie
     (Some ''http://a.com'') = Some ''SameSiteCookieIssue::WarnSameSiteNoneInsecure::SetCookie''"
    using generic by simp
  have g2: "\<not> suffix ''::Insecure'' ''SameSiteCookieIssue::WarnSameSiteNoneInsecure::SetCookie''"
    using generic g1 by (auto simp: s1 suffix_to_prefix)
  have w1: "codeForSameSiteDetails (WarningReason WarnSameSiteStrictLaxDowngradeStrict) (Some [])
     SetCookie (Some ''wss://a.com'') =
     Some ''SameSiteCookieIssue::WarnSameSiteStrictLaxDowngradeStrict::Secure''"
    using secure_label_scope
      [of "Some ''wss://a.com''" "WarningReason WarnSameSiteStrictLaxDowngradeStrict" "Some []"
        SetCookie "[]"]
    by (simp add: s2)
  have w2: "codeForSameSiteDetails (WarningReason WarnSameSiteLaxCrossDowngradeLax) (Some [])
     ReadCookie (Some ''http://a.com'') =
     Some ''SameSiteCookieIssue::WarnCrossDowngrade::ReadCookie::Insecure''"
    using secure_label_scope
      [of "Some ''http://a.com''" "WarningReason WarnSameSiteLaxCrossDowngradeLax" "Some []"
        ReadCookie "[]"]
    by (simp add: s1)
  have x1: "codeForSameSiteDetails (ExclusionReason ExcludeSameSiteStrict)
     (Some [WarnSameSiteNoneInsecure, WarnSameSiteStrictLaxDowngradeStrict]) ReadCookie
     (Some ''http://a.com'') =
     Some ''SameSiteCookieIssue::ExcludeNavigationContextDowngrade::Insecure''"
    using secure_label_scope
      [of "Some ''http://a.com''" "ExclusionReason ExcludeSameSiteStrict" "Some []" ReadCookie
        "[WarnSameSiteNoneInsecure, WarnSameSiteStrictLaxDowngradeStrict]"]
    by (simp add: s1)
  have x2: "codeForSameSiteDetails (ExclusionReason ExcludeSameSiteLax)
     (Some [WarnSameSiteStrictCrossDowngradeLax]) SetCookie (Some ''wss://a.com'') =
     Some ''SameSiteCookieIssue::ExcludeContextDowngrade::SetCookie::Secure''"
    using secure_label_scope
      [of "Some ''wss://a.com''" "ExclusionReason ExcludeSameSiteLax" "Some []" SetCookie
        "[WarnSameSiteStrictCrossDowngradeLax]"]
    by (simp add: s2)
  from s1 s2 g1 g2 w1 w2 x1 x2 show ?thesis by simp
qed

subsection \<open>The issue factory\<close>

lemma codeFor_not_empty:
  "codeForSameSiteDetails reason warningReasons oper url \<noteq> Some []"
  by (simp add: codeForSameSiteDetails_def Let_def InspectorIssueCode_SameSiteCookieIssue_def)

lemma codeFor_exclusion_prefix:
  "codeForSameSiteDetails (ExclusionReason r) warningReasons oper url = Some c \<Longrightarrow>
     prefix ''SameSiteCookieIssue::E'' c"
  by (cases r) (auto simp: codeForSameSiteDetails_def Let_def
      InspectorIssueCode_SameSiteCookieIssue_def split: if_splits)

lemma codeFor_warning_prefix:
  "codeForSameSiteDetails (WarningReason w) warningReasons oper url = Some c \<Longrightarrow>
     prefix ''SameSiteCookieIssue::W'' c"
  by (cases w) (auto simp: codeForSameSiteDetails_def Let_def
      InspectorIssueCode_SameSiteCookieIssue_def split: if_splits)

lemma pushIfCode_codeFor:
  "pushIfCode (codeForSameSiteDetails reason warningReasons oper url) d m issues =
     issues @ map (\<lambda>c. \<lparr>code = c, issueDetails = d, issuesModel = m\<rparr>)
       (case codeForSameSiteDetails reason warningReasons oper url of
          None \<Rightarrow> [] | Some c \<Rightarrow> [c])"
  using codeFor_not_empty [of reason warningReasons oper url]
  by (cases "codeForSameSiteDetails reason warningReasons oper url") auto

lemma map_filter_Cons_case:
  "List.map_filter f (x # xs) = (case f x of None \<Rightarrow> [] | Some y \<Rightarrow> [y]) @ List.map_filter f xs"
  by (simp add: map_filter_simps split: option.splits)

lemma exclusionLoop_eq:
  "exclusionLoop d m rs issues =
     issues @ map (\<lambda>c. \<lparr>code = c, issueDetails = d, issuesModel = m\<rparr>)
       (List.map_filter
          (\<lambda>r. codeForSameSiteDetails (ExclusionReason r) (cookieWarningReasons d)
                 (operation d) (cookieUrl d)) rs)"
proof (induction rs arbitrary: issues)
  case Nil
  show ?case by (simp add: map_filter_simps)
next
  case (Cons r rs)
  show ?case
    by (simp only: exclusionLoop.simps Cons.IH pushIfCode_codeFor map_filter_Cons_case
        map_append append_assoc)
qed

lemma warningLoop_eq:
  "warningLoop d m ws issues =
     issues @ map (\<lambda>c. \<lparr>code = c, issueDetails = d, issuesModel = m\<rparr>)
       (List.map_filter
          (\<lambda>w. codeForSameSiteDetails (WarningReason w) (Some [])
                 (operation d) (cookieUrl d)) ws)"
proof (induction ws arbitrary: issues)
  case Nil
  show ?case by (simp add: map_filter_simps)
next
  case (Cons w ws)
  show ?case
    by (simp only: warningLoop.simps Cons.IH pushIfCode_codeFor map_filter_Cons_case
        map_append append_assoc)
qed

lemma createIssues_exclusions:
  assumes "cookieExclusionReasons d = Some rs" and "rs \<noteq> []"
  shows "createIssuesFromSameSiteDetails d m =
     map (\<lambda>c. \<lparr>code = c, issueDetails = d, issuesModel = m\<rparr>)
       (List.map_filter
          (\<lambda>r. codeForSameSiteDetails (ExclusionReason r) (cookieWarningReasons d)
                 (operation d) (cookieUrl d)) rs)"
  using assms
  by (cases rs) (simp_all add: createIssuesFromSameSiteDetails_def exclusionLoop_eq
      del: exclusionLoop.simps)

lemma createIssues_warnings:
  assumes "cookieExclusionReasons d = None \<or> cookieExclusionReasons d = Some []"
  shows "createIssuesFromSameSiteDetails d m =
     map (\<lambda>c. \<lparr>code = c, issueDetails = d, issuesModel = m\<rparr>)
       (List.map_filter
          (\<lambda>w. codeForSameSiteDetails (WarningReason w) (Some [])
                 (operation d) (cookieUrl d))
          (case cookieWarningReasons d of None \<Rightarrow> [] | Some ws \<Rightarrow> ws))"
  using assms
  by (auto simp: createIssuesFromSameSiteDetails_def warningLoop_eq map_filter_simps
      split: option.splits)

lemma createIssues_details:
  assumes "i \<in> set (createIssuesFromSameSiteDetails d m)"
  shows "issueDetails i = d \<and> issuesModel i = m"
proof (cases "\<exists>rs. cookieExclusionReasons d = Some rs \<and> rs \<noteq> []")
  case True
  then obtain rs where "cookieExclusionReasons d = Some rs" "rs \<noteq> []" by blast
  from createIssues_exclusions [OF this, of m] assms show ?thesis by auto
next
  case False
  then have "cookieExclusionReasons d = None \<or> cookieExclusionReasons d = Some []"
    by (cases "cookieExclusionReasons d") auto
  from createIssues_warnings [OF this, of m] assms show ?thesis by auto
qed

lemma set_map_filter: "set (List.map_filter f xs) = {y. \<exists>x \<in> set xs. f x = Some y}"
  by (induction xs) (auto simp: map_filter_simps split: option.splits)

text \<open>
  Claim C1. For a report whose \<open>cookieExclusionReasons\<close> is present and non-empty, the
  issues produced are exactly those of the exclusion reasons, in their order, each resolved
  against the report's warning reasons; the warning reasons are not iterated, so no produced
  code is a code the resolver gives for any warning reason, and when every exclusion reason
  resolves to none the result is empty.
\<close>

theorem createIssues_exclusion_priority:
  assumes "cookieExclusionReasons d = Some rs" and "rs \<noteq> []"
  shows "createIssuesFromSameSiteDetails d m =
           map (\<lambda>c. \<lparr>code = c, issueDetails = d, issuesModel = m\<rparr>)
             (List.map_filter
                (\<lambda>r. codeForSameSiteDetails (ExclusionReason r) (cookieWarningReasons d)
                       (operation d) (cookieUrl d)) rs) \<and>
         (\<forall>i \<in> set (createIssuesFromSameSiteDetails d m). \<forall>w ws oper url.
            codeForSameSiteDetails (WarningReason w) ws oper url \<noteq> Some (code i)) \<and>
         ((\<forall>r \<in> set rs. codeForSameSiteDetails (ExclusionReason r) (cookieWarningReasons d)
                           (operation d) (cookieUrl d) = None) \<longrightarrow>
            createIssuesFromSameSiteDetails d m = [])"
proof -
  let ?f = "\<lambda>r. codeForSameSiteDetails (ExclusionReason r) (cookieWarningReasons d)
                       (operation d) (cookieUrl d)"
  have eq: "createIssuesFromSameSiteDetails d m =
           map (\<lambda>c. \<lparr>code = c, issueDetails = d, issuesModel = m\<rparr>) (List.map_filter ?f rs)"
    by (rule createIssues_exclusions [OF assms])
  have nowarn: "codeForSameSiteDetails (WarningReason w) ws oper url \<noteq> Some (code i)"
    if "i \<in> set (createIssuesFromSameSiteDetails d m)" for i w ws oper url
  proof
    assume w: "codeForSameSiteDetails (WarningReason w) ws oper url = Some (code i)"
    from that eq obtain r where "r \<in> set rs" "?f r = Some (code i)"
      by (auto simp: set_map_filter)
    from codeFor_exclusion_prefix [OF this(2)] codeFor_warning_prefix [OF w]
    show False by (cases "code i") (auto simp: prefix_def)
  qed
  have empty: "createIssuesFromSameSiteDetails d m = []" if "\<forall>r \<in> set rs. ?f r = None"
  proof -
    have "set (List.map_filter ?f rs) = {}" using that by (simp add: set_map_filter)
    then show ?thesis using eq by simp
  qed
  from eq nowarn empty show ?thesis by blast
qed

theorem createIssues_exclusion_priority_witness:
  "createIssuesFromSameSiteDetails
     \<lparr>cookie = None, rawCookieLine = Some ''k=v'',
      cookieWarningReasons = Some [WarnSameSiteNoneInsecure],
      cookieExclusionReasons = Some [ExcludeSameSiteStrict, ExcludeSameSiteNoneInsecure],
      operation = ReadCookie, cookieUrl = Some ''http://a.com'', request = None\<rparr> () =
   [\<lparr>code = ''SameSiteCookieIssue::ExcludeSameSiteNoneInsecure::ReadCookie'',
     issueDetails =
       \<lparr>cookie = None, rawCookieLine = Some ''k=v'',
        cookieWarningReasons = Some [WarnSameSiteNoneInsecure],
        cookieExclusionReasons = Some [ExcludeSameSiteStrict, ExcludeSameSiteNoneInsecure],
        operation = ReadCookie, cookieUrl = Some ''http://a.com'', request = None\<rparr>,
     issuesModel = ()\<rparr>]"
proof -
  let ?d = "\<lparr>cookie = None, rawCookieLine = Some ''k=v'',
      cookieWarningReasons = Some [WarnSameSiteNoneInsecure],
      cookieExclusionReasons = Some [ExcludeSameSiteStrict, ExcludeSameSiteNoneInsecure],
      operation = ReadCookie, cookieUrl = Some ''http://a.com'', request = None\<rparr>"
  have h1: "cookieExclusionReasons ?d = Some [ExcludeSameSiteStrict, ExcludeSameSiteNoneInsecure]"
    by simp
  have h2: "[ExcludeSameSiteStrict, ExcludeSameSiteNoneInsecure] \<noteq> []" by simp
  from createIssues_exclusion_priority [OF h1 h2, of "()"]
  have "createIssuesFromSameSiteDetails ?d () =
           map (\<lambda>c. \<lparr>code = c, issueDetails = ?d, issuesModel = ()\<rparr>)
             (List.map_filter
                (\<lambda>r. codeForSameSiteDetails (ExclusionReason r) (cookieWarningReasons ?d)
                       (operation ?d) (cookieUrl ?d))
                [ExcludeSameSiteStrict, ExcludeSameSiteNoneInsecure])"
    by (rule conjunct1)
  then show ?thesis
    by (simp add: map_filter_simps codeForSameSiteDetails_def Let_def array_includes_def
        InspectorIssueCode_SameSiteCookieIssue_def)
qed

lemma map_filter_append:
  "List.map_filter f (xs @ ys) = List.map_filter f xs @ List.map_filter f ys"
  by (simp add: List.map_filter_def)

text \<open>
  Claim C7. For a report whose \<open>cookieExclusionReasons\<close> is absent or empty, the issues
  produced are, in the order of \<open>cookieWarningReasons\<close>, one issue for each warning reason
  whose code, resolved against the empty warning set with the report's operation and URL,
  is not none. The code of each issue depends on its own warning reason, the operation and
  the URL only: the codes produced for a list of warning reasons are the codes produced for
  its front part followed by the codes produced for its rear part.
\<close>

theorem createIssues_warning_branch:
  assumes "cookieExclusionReasons d = None \<or> cookieExclusionReasons d = Some []"
  shows "createIssuesFromSameSiteDetails d m =
           map (\<lambda>c. \<lparr>code = c, issueDetails = d, issuesModel = m\<rparr>)
             (List.map_filter
                (\<lambda>w. codeForSameSiteDetails (WarningReason w) (Some [])
                       (operation d) (cookieUrl d))
                (case cookieWarningReasons d of None \<Rightarrow> [] | Some ws \<Rightarrow> ws)) \<and>
         map code (createIssuesFromSameSiteDetails
                     (d\<lparr>cookieWarningReasons := Some (ws1 @ ws2)\<rparr>) m) =
           map code (createIssuesFromSameSiteDetails (d\<lparr>cookieWarningReasons := Some ws1\<rparr>) m) @
           map code (createIssuesFromSameSiteDetails (d\<lparr>cookieWarningReasons := Some ws2\<rparr>) m)"
proof
  show "createIssuesFromSameSiteDetails d m =
           map (\<lambda>c. \<lparr>code = c, issueDetails = d, issuesModel = m\<rparr>)
             (List.map_filter
                (\<lambda>w. codeForSameSiteDetails (WarningReason w) (Some [])
                       (operation d) (cookieUrl d))
                (case cookieWarningReasons d of None \<Rightarrow> [] | Some ws \<Rightarrow> ws))"
    by (rule createIssues_warnings [OF assms])
next
  have e: "cookieExclusionReasons (d\<lparr>cookieWarningReasons := Some ws\<rparr>) = None \<or>
           cookieExclusionReasons (d\<lparr>cookieWarningReasons := Some ws\<rparr>) = Some []" for ws
    using assms by simp
  have codes: "map code (createIssuesFromSameSiteDetails (d\<lparr>cookieWarningReasons := Some ws\<rparr>) m) =
      List.map_filter
        (\<lambda>w. codeForSameSiteDetails (WarningReason w) (Some []) (operation d) (cookieUrl d)) ws"
    for ws
    unfolding createIssues_warnings [OF e] by (simp add: comp_def)
  show "map code (createIssuesFromSameSiteDetails
                     (d\<lparr>cookieWarningReasons := Some (ws1 @ ws2)\<rparr>) m) =
           map code (createIssuesFromSameSiteDetails (d\<lparr>cookieWarningReasons := Some ws1\<rparr>) m) @
           map code (createIssuesFromSameSiteDetails (d\<lparr>cookieWarningReasons := Some ws2\<rparr>) m)"
    unfolding codes by (rule map_filter_append)
qed

theorem createIssues_warning_branch_witness:
  "map code (createIssuesFromSameSiteDetails
     \<lparr>cookie = None, rawCookieLine = Some ''k=v'',
      cookieWarningReasons = Some [WarnSameSiteNoneInsecure, WarnSameSiteStrictLaxDowngradeStrict],
      cookieExclusionReasons = Some [],
      operation = SetCookie, cookieUrl = Some ''https://a.com'', request = None\<rparr> ()) =
   [''SameSiteCookieIssue::WarnSameSiteNoneInsecure::SetCookie'',
    ''SameSiteCookieIssue::WarnSameSiteStrictLaxDowngradeStrict::Secure'']"
proof -
  let ?d = "\<lparr>cookie = None, rawCookieLine = Some ''k=v'',
      cookieWarningReasons = Some [WarnSameSiteNoneInsecure, WarnSameSiteStrictLaxDowngradeStrict],
      cookieExclusionReasons = Some [],
      operation = SetCookie, cookieUrl = Some ''https://a.com'', request = None\<rparr>"
  have h: "cookieExclusionReasons ?d = None \<or> cookieExclusionReasons ?d = Some []" by simp
  show ?thesis
    unfolding createIssues_warning_branch [OF h, of "()", THEN conjunct1]
    by (simp add: map_filter_simps codeForSameSiteDetails_def Let_def secure_def isURLSecure_def
        startsWith_def InspectorIssueCode_SameSiteCookieIssue_def comp_def)
qed

lemma getKind_eq:
  "getKind i =
     (if (\<exists>rs. cookieExclusionReasons (issueDetails i) = Some rs \<and> rs \<noteq> [])
      then PageError else BreakingChange)"
  by (cases "cookieExclusionReasons (issueDetails i)") (simp_all add: getKind_def)

text \<open>
  Claim C10. \<open>getKind\<close> is \<open>PageError\<close> exactly when the issue's report has a non-empty
  list of exclusion reasons, and \<open>BreakingChange\<close> otherwise. Every issue the factory
  produces carries the report it was produced from, so the issues of a report with
  exclusion reasons are page errors and those of the warning branch are breaking changes.
\<close>

theorem getKind_classification:
  "getKind i =
     (if (\<exists>rs. cookieExclusionReasons (issueDetails i) = Some rs \<and> rs \<noteq> [])
      then PageError else BreakingChange) \<and>
   (\<forall>j \<in> set (createIssuesFromSameSiteDetails d m).
      getKind j =
        (if (\<exists>rs. cookieExclusionReasons d = Some rs \<and> rs \<noteq> [])
         then PageError else BreakingChange))"
proof (intro conjI ballI)
  show "getKind i =
     (if (\<exists>rs. cookieExclusionReasons (issueDetails i) = Some rs \<and> rs \<noteq> [])
      then PageError else BreakingChange)"
    by (rule getKind_eq)
next
  fix j assume "j \<in> set (createIssuesFromSameSiteDetails d m)"
  then have "issueDetails j = d" using createIssues_details [of j d m] by simp
  then show "getKind j =
        (if (\<exists>rs. cookieExclusionReasons d = Some rs \<and> rs \<noteq> [])
         then PageError else BreakingChange)"
    using getKind_eq [of j] by simp
qed

theorem getKind_classification_witness:
  "\<lparr>code = ''SameSiteCookieIssue::ExcludeSameSiteNoneInsecure::ReadCookie'',
     issueDetails =
       \<lparr>cookie = None, rawCookieLine = None, cookieWarningReasons = Some [],
        cookieExclusionReasons = Some [ExcludeSameSiteNoneInsecure],
        operation = ReadCookie, cookieUrl = None, request = None\<rparr>,
     issuesModel = ()\<rparr>
     \<in> set (createIssuesFromSameSiteDetails
         \<lparr>cookie = None, rawCookieLine = None, cookieWarningReasons = Some [],
          cookieExclusionReasons = Some [ExcludeSameSiteNoneInsecure],
          operation = ReadCookie, cookieUrl = None, request = None\<rparr> ()) \<and>
   getKind
     \<lparr>code = ''SameSiteCookieIssue::ExcludeSameSiteNoneInsecure::ReadCookie'',
      issueDetails =
        \<lparr>cookie = None, rawCookieLine = None, cookieWarningReasons = Some [],
         cookieExclusionReasons = Some [ExcludeSameSiteNoneInsecure],
         operation = ReadCookie, cookieUrl = None, request = None\<rparr>,
      issuesModel = ()\<rparr> = PageError"
proof -
  let ?d = "\<lparr>cookie = None, rawCookieLine = None, cookieWarningReasons = Some [],
          cookieExclusionReasons = Some [ExcludeSameSiteNoneInsecure],
          operation = ReadCookie, cookieUrl = None, request = None\<rparr>"
  let ?i = "\<lparr>code = ''SameSiteCookieIssue::ExcludeSameSiteNoneInsecure::ReadCookie'',
     issueDetails = ?d, issuesModel = ()\<rparr>"
  have mem: "?i \<in> set (createIssuesFromSameSiteDetails ?d ())"
    by (simp add: createIssuesFromSameSiteDetails_def codeForSameSiteDetails_def Let_def
        InspectorIssueCode_SameSiteCookieIssue_def)
  from getKind_classification [of ?i ?d "()"]
  have "\<forall>j \<in> set (createIssuesFromSameSiteDetails ?d ()).
      getKind j =
        (if (\<exists>rs. cookieExclusionReasons ?d = Some rs \<and> rs \<noteq> [])
         then PageError else BreakingChange)"
    by (rule conjunct2)
  from this mem have "getKind ?i =
        (if (\<exists>rs. cookieExclusionReasons ?d = Some rs \<and> rs \<noteq> [])
         then PageError else BreakingChange)" by (rule bspec)
  then have "getKind ?i = PageError" by simp
  with mem show ?thesis by (rule conjI)
qed

text \<open>
  Claim C8. An inspector issue whose details carry no \<open>sameSiteCookieIssueDetails\<close> yields
  no issue: the call writes one console warning and returns the empty list.
\<close>

theorem fromInspectorIssue_missing_details:
  assumes "sameSiteCookieIssueDetails (details inspectorIssue) = None"
  shows "fromInspectorIssue m inspectorIssue = ([''SameSite issue without details received.''], [])"
  using assms by (simp add: fromInspectorIssue_def)

theorem fromInspectorIssue_missing_details_witness:
  "fromInspectorIssue () \<lparr>details = \<lparr>sameSiteCookieIssueDetails = None\<rparr>\<rparr> =
     ([''SameSite issue without details received.''], [])"
proof -
  have h: "sameSiteCookieIssueDetails (details \<lparr>details = \<lparr>sameSiteCookieIssueDetails = None\<rparr>\<rparr>) = None"
    by simp
  show ?thesis by (rule fromInspectorIssue_missing_details [OF h])
qed

subsection \<open>The primary key\<close>

lemma split_at_first:
  assumes "x \<notin> set a" "x \<notin> set b" "a @ x # c = b @ x # d"
  shows "a = b \<and> c = d"
  using assms
proof (induction a arbitrary: b)
  case Nil
  then show ?case by (cases b) auto
next
  case (Cons y a)
  then show ?case by (cases b) auto
qed

lemma primaryKey_inj:
  assumes c: "CHR ''('' \<notin> set (code i1)" "CHR ''('' \<notin> set (code i2)"
      and r: "CHR ''('' \<notin> set (primaryKeyRequestId i1)" "CHR ''('' \<notin> set (primaryKeyRequestId i2)"
      and eq: "primaryKey i1 = primaryKey i2"
  shows "code i1 = code i2 \<and> cookieId i1 = cookieId i2 \<and>
         primaryKeyRequestId i1 = primaryKeyRequestId i2"
proof -
  have k: "(code i1 @ ''-'') @ CHR ''('' # (cookieId i1 @ '')-('' @ primaryKeyRequestId i1 @ '')'')
     = (code i2 @ ''-'') @ CHR ''('' # (cookieId i2 @ '')-('' @ primaryKeyRequestId i2 @ '')'')"
    using eq by (simp add: primaryKey_def)
  have n1: "CHR ''('' \<notin> set (code i1 @ ''-'')" and n2: "CHR ''('' \<notin> set (code i2 @ ''-'')"
    using c by simp_all
  note s1 = split_at_first [OF n1 n2 k]
  from s1 have code: "code i1 = code i2" by simp
  from s1 have e2: "cookieId i1 @ '')-('' @ primaryKeyRequestId i1 @ '')'' =
             cookieId i2 @ '')-('' @ primaryKeyRequestId i2 @ '')''"
    by (rule conjunct2)
  have "rev (cookieId i1 @ '')-('' @ primaryKeyRequestId i1 @ '')'') =
        rev (cookieId i2 @ '')-('' @ primaryKeyRequestId i2 @ '')'')"
    using e2 by (rule arg_cong)
  then have k': "(CHR '')'' # rev (primaryKeyRequestId i1)) @ CHR ''('' # (''-)'' @ rev (cookieId i1)) =
             (CHR '')'' # rev (primaryKeyRequestId i2)) @ CHR ''('' # (''-)'' @ rev (cookieId i2))"
    by simp
  have m1: "CHR ''('' \<notin> set (CHR '')'' # rev (primaryKeyRequestId i1))"
    and m2: "CHR ''('' \<notin> set (CHR '')'' # rev (primaryKeyRequestId i2))"
    using r by simp_all
  note s2 = split_at_first [OF m1 m2 k']
  from s2 have "primaryKeyRequestId i1 = primaryKeyRequestId i2" "cookieId i1 = cookieId i2"
    by simp_all
  with code show ?thesis by simp
qed

text \<open>
  The primary key does not determine the cookie identity. The two reports below differ in
  their raw cookie line and in their request id; the issue each one yields has the same
  code and the same primary key, \<open>...SetCookie-(k=v)-(1)-(2)\<close>, and a different cookie
  identity.
\<close>

theorem primaryKey_not_injective:
  "createIssuesFromSameSiteDetails
     \<lparr>cookie = None, rawCookieLine = Some ''k=v)-(1'',
      cookieWarningReasons = Some [WarnSameSiteNoneInsecure],
      cookieExclusionReasons = Some [], operation = SetCookie, cookieUrl = None,
      request = Some \<lparr>requestId = ''2''\<rparr>\<rparr> () =
     [\<lparr>code = ''SameSiteCookieIssue::WarnSameSiteNoneInsecure::SetCookie'',
       issueDetails =
         \<lparr>cookie = None, rawCookieLine = Some ''k=v)-(1'',
          cookieWarningReasons = Some [WarnSameSiteNoneInsecure],
          cookieExclusionReasons = Some [], operation = SetCookie, cookieUrl = None,
          request = Some \<lparr>requestId = ''2''\<rparr>\<rparr>,
       issuesModel = ()\<rparr>] \<and>
   createIssuesFromSameSiteDetails
     \<lparr>cookie = None, rawCookieLine = Some ''k=v'',
      cookieWarningReasons = Some [WarnSameSiteNoneInsecure],
      cookieExclusionReasons = Some [], operation = SetCookie, cookieUrl = None,
      request = Some \<lparr>requestId = ''1)-(2''\<rparr>\<rparr> () =
     [\<lparr>code = ''SameSiteCookieIssue::WarnSameSiteNoneInsecure::SetCookie'',
       issueDetails =
         \<lparr>cookie = None, rawCookieLine = Some ''k=v'',
          cookieWarningReasons = Some [WarnSameSiteNoneInsecure],
          cookieExclusionReasons = Some [], operation = SetCookie, cookieUrl = None,
          request = Some \<lparr>requestId = ''1)-(2''\<rparr>\<rparr>,
       issuesModel = ()\<rparr>] \<and>
   primaryKey
     \<lparr>code = ''SameSiteCookieIssue::WarnSameSiteNoneInsecure::SetCookie'',
      issueDetails =
        \<lparr>cookie = None, rawCookieLine = Some ''k=v)-(1'',
         cookieWarningReasons = Some [WarnSameSiteNoneInsecure],
         cookieExclusionReasons = Some [], operation = SetCookie, cookieUrl = None,
         request = Some \<lparr>requestId = ''2''\<rparr>\<rparr>,
      issuesModel = ()\<rparr> =
   primaryKey
     \<lparr>code = ''SameSiteCookieIssue::WarnSameSiteNoneInsecure::SetCookie'',
      issueDetails =
        \<lparr>cookie = None, rawCookieLine = Some ''k=v'',
         cookieWarningReasons = Some [WarnSameSiteNoneInsecure],
         cookieExclusionReasons = Some [], operation = SetCookie, cookieUrl = None,
         request = Some \<lparr>requestId = ''1)-(2''\<rparr>\<rparr>,
      issuesModel = ()\<rparr> \<and>
   cookieId
     \<lparr>code = ''SameSiteCookieIssue::WarnSameSiteNoneInsecure::SetCookie'',
      issueDetails =
        \<lparr>cookie = None, rawCookieLine = Some ''k=v)-(1'',
         cookieWarningReasons = Some [WarnSameSiteNoneInsecure],
         cookieExclusionReasons = Some [], operation = SetCookie, cookieUrl = None,
         request = Some \<lparr>requestId = ''2''\<rparr>\<rparr>,
      issuesModel = ()\<rparr> \<noteq>
   cookieId
     \<lparr>code = ''SameSiteCookieIssue::WarnSameSiteNoneInsecure::SetCookie'',
      issueDetails =
        \<lparr>cookie = None, rawCookieLine = Some ''k=v'',
         cookieWarningReasons = Some [WarnSameSiteNoneInsecure],
         cookieExclusionReasons = Some [], operation = SetCookie, cookieUrl = None,
         request = Some \<lparr>requestId = ''1)-(2''\<rparr>\<rparr>,
      issuesModel = ()\<rparr>"
  by (simp add: primaryKey_def cookieId_def primaryKeyRequestId_def
      createIssuesFromSameSiteDetails_def codeForSameSiteDetails_def Let_def
      InspectorIssueCode_SameSiteCookieIssue_def)

text \<open>
  Claim C9, amended. The primary key is \<open>{code}-({cookieId})-({requestId})\<close>, where the
  cookie identity is \<open>{domain};{path};{name}\<close> of the report's cookie when present, else the
  raw cookie line when present, else \<open>no-cookie-info\<close>, and the request identity is the
  request id when a request is present, else \<open>no-request\<close>. Issues whose code, cookie
  identity and request identity coincide have equal primary keys. The converse holds when
  neither code and neither request identity contains an opening parenthesis.
\<close>

theorem primaryKey_format:
  "primaryKey i =
     code i @ ''-('' @
     (case cookie (issueDetails i) of
        Some c \<Rightarrow> domain c @ '';'' @ path c @ '';'' @ name c
      | None \<Rightarrow> (case rawCookieLine (issueDetails i) of
                   Some line \<Rightarrow> line | None \<Rightarrow> ''no-cookie-info'')) @
     '')-('' @
     (case request (issueDetails i) of Some r \<Rightarrow> requestId r | None \<Rightarrow> ''no-request'') @
     '')'' \<and>
   (code i1 = code i2 \<and> cookieId i1 = cookieId i2 \<and>
    primaryKeyRequestId i1 = primaryKeyRequestId i2 \<longrightarrow> primaryKey i1 = primaryKey i2) \<and>
   (CHR ''('' \<notin> set (code i1) \<and> CHR ''('' \<notin> set (code i2) \<and>
    CHR ''('' \<notin> set (primaryKeyRequestId i1) \<and> CHR ''('' \<notin> set (primaryKeyRequestId i2) \<longrightarrow>
      (primaryKey i1 = primaryKey i2 \<longleftrightarrow>
         code i1 = code i2 \<and> cookieId i1 = cookieId i2 \<and>
         primaryKeyRequestId i1 = primaryKeyRequestId i2))"
proof (intro conjI impI)
  show "primaryKey i =
     code i @ ''-('' @
     (case cookie (issueDetails i) of
        Some c \<Rightarrow> domain c @ '';'' @ path c @ '';'' @ name c
      | None \<Rightarrow> (case rawCookieLine (issueDetails i) of
                   Some line \<Rightarrow> line | None \<Rightarrow> ''no-cookie-info'')) @
     '')-('' @
     (case request (issueDetails i) of Some r \<Rightarrow> requestId r | None \<Rightarrow> ''no-request'') @
     '')''"
    by (simp add: primaryKey_def cookieId_def primaryKeyRequestId_def)
next
  assume "code i1 = code i2 \<and> cookieId i1 = cookieId i2 \<and>
    primaryKeyRequestId i1 = primaryKeyRequestId i2"
  then show "primaryKey i1 = primaryKey i2" by (simp add: primaryKey_def)
next
  assume h: "CHR ''('' \<notin> set (code i1) \<and> CHR ''('' \<notin> set (code i2) \<and>
    CHR ''('' \<notin> set (primaryKeyRequestId i1) \<and> CHR ''('' \<notin> set (primaryKeyRequestId i2)"
  show "primaryKey i1 = primaryKey i2 \<longleftrightarrow>
         code i1 = code i2 \<and> cookieId i1 = cookieId i2 \<and>
         primaryKeyRequestId i1 = primaryKeyRequestId i2"
  proof
    assume "primaryKey i1 = primaryKey i2"
    with h show "code i1 = code i2 \<and> cookieId i1 = cookieId i2 \<and>
         primaryKeyRequestId i1 = primaryKeyRequestId i2"
      using primaryKey_inj [of i1 i2] by simp
  next
    assume "code i1 = code i2 \<and> cookieId i1 = cookieId i2 \<and>
         primaryKeyRequestId i1 = primaryKeyRequestId i2"
    then show "primaryKey i1 = primaryKey i2" by (simp add: primaryKey_def)
  qed
qed

theorem primaryKey_format_witness:
  "primaryKey
     \<lparr>code = ''SameSiteCookieIssue::WarnSameSiteNoneInsecure::SetCookie'',
      issueDetails =
        \<lparr>cookie = Some \<lparr>name = ''sid'', path = ''/'', domain = ''a.com''\<rparr>,
         rawCookieLine = None, cookieWarningReasons = Some [WarnSameSiteNoneInsecure],
         cookieExclusionReasons = Some [], operation = SetCookie, cookieUrl = None,
         request = Some \<lparr>requestId = ''1234.5''\<rparr>\<rparr>,
      issuesModel = ()\<rparr> =
     ''SameSiteCookieIssue::WarnSameSiteNoneInsecure::SetCookie-(a.com;/;sid)-(1234.5)'' \<and>
   primaryKey
     \<lparr>code = ''SameSiteCookieIssue::WarnSameSiteNoneInsecure::SetCookie'',
      issueDetails =
        \<lparr>cookie = Some \<lparr>name = ''sid'', path = ''/'', domain = ''a.com''\<rparr>,
         rawCookieLine = None, cookieWarningReasons = Some [WarnSameSiteNoneInsecure],
         cookieExclusionReasons = Some [], operation = SetCookie, cookieUrl = None,
         request = Some \<lparr>requestId = ''1234.5''\<rparr>\<rparr>,
      issuesModel = ()\<rparr> \<noteq>
   primaryKey
     \<lparr>code = ''SameSiteCookieIssue::WarnSameSiteNoneInsecure::SetCookie'',
      issueDetails =
        \<lparr>cookie = None,
         rawCookieLine = None, cookieWarningReasons = Some [WarnSameSiteNoneInsecure],
         cookieExclusionReasons = Some [], operation = SetCookie, cookieUrl = None,
         request = None\<rparr>,
      issuesModel = ()\<rparr>"
proof -
  let ?c = "''SameSiteCookieIssue::WarnSameSiteNoneInsecure::SetCookie''"
  let ?i1 = "\<lparr>code = ?c,
      issueDetails =
        \<lparr>cookie = Some \<lparr>name = ''sid'', path = ''/'', domain = ''a.com''\<rparr>,
         rawCookieLine = None, cookieWarningReasons = Some [WarnSameSiteNoneInsecure],
         cookieExclusionReasons = Some [], operation = SetCookie, cookieUrl = None,
         request = Some \<lparr>requestId = ''1234.5''\<rparr>\<rparr>,
      issuesModel = ()\<rparr>"
  let ?i2 = "\<lparr>code = ?c,
      issueDetails =
        \<lparr>cookie = None,
         rawCookieLine = None, cookieWarningReasons = Some [WarnSameSiteNoneInsecure],
         cookieExclusionReasons = Some [], operation = SetCookie, cookieUrl = None,
         request = None\<rparr>,
      issuesModel = ()\<rparr>"
  note t = primaryKey_format [of ?i1 ?i1 ?i2]
  from t have "primaryKey ?i1 =
     code ?i1 @ ''-('' @
     (case cookie (issueDetails ?i1) of
        Some c \<Rightarrow> domain c @ '';'' @ path c @ '';'' @ name c
      | None \<Rightarrow> (case rawCookieLine (issueDetails ?i1) of
                   Some line \<Rightarrow> line | None \<Rightarrow> ''no-cookie-info'')) @
     '')-('' @
     (case request (issueDetails ?i1) of Some r \<Rightarrow> requestId r | None \<Rightarrow> ''no-request'') @
     '')''"
    by (rule conjunct1)
  then have k1: "primaryKey ?i1 = ?c @ ''-(a.com;/;sid)-(1234.5)''" by simp
  from t have imp: "CHR ''('' \<notin> set (code ?i1) \<and> CHR ''('' \<notin> set (code ?i2) \<and>
    CHR ''('' \<notin> set (primaryKeyRequestId ?i1) \<and> CHR ''('' \<notin> set (primaryKeyRequestId ?i2) \<longrightarrow>
      (primaryKey ?i1 = primaryKey ?i2 \<longleftrightarrow>
         code ?i1 = code ?i2 \<and> cookieId ?i1 = cookieId ?i2 \<and>
         primaryKeyRequestId ?i1 = primaryKeyRequestId ?i2)"
    by (rule conjunct2 [THEN conjunct2])
  have pre: "CHR ''('' \<notin> set (code ?i1) \<and> CHR ''('' \<notin> set (code ?i2) \<and>
    CHR ''('' \<notin> set (primaryKeyRequestId ?i1) \<and> CHR ''('' \<notin> set (primaryKeyRequestId ?i2)"
    by (simp add: primaryKeyRequestId_def)
  have ne: "cookieId ?i1 \<noteq> cookieId ?i2" by (simp add: cookieId_def)
  from imp pre have "primaryKey ?i1 = primaryKey ?i2 \<longleftrightarrow>
         code ?i1 = code ?i2 \<and> cookieId ?i1 = cookieId ?i2 \<and>
         primaryKeyRequestId ?i1 = primaryKeyRequestId ?i2" by (rule mp)
  with ne have k2: "primaryKey ?i1 \<noteq> primaryKey ?i2" by blast
  from k1 k2 show ?thesis by simp
qed

subsection \<open>Third-party attribution\<close>

text \<open>
  Claim C5. With a URL parser that rejects the empty string, \<open>isCausedByThirdParty\<close> is
  true when there is no top frame; otherwise false when the cookie URL is absent or the top
  frame's registrable domain is empty; otherwise false when the cookie URL does not parse;
  otherwise the negation of \<open>isSubdomainOf\<close> on the parsed URL's domain and the top frame's
  registrable domain. The method of the issue reads the cookie URL only, so the operation
  does not change the result.
\<close>

theorem isCausedByThirdParty_decision:
  "(fromString [] = None \<longrightarrow>
    isCausedByThirdParty fromString topFrame url =
     (case topFrame of
        None \<Rightarrow> True
      | Some frame \<Rightarrow>
          (case url of
             None \<Rightarrow> False
           | Some u \<Rightarrow>
               if domainAndRegistry frame = [] then False
               else (case fromString u of
                       None \<Rightarrow> False
                     | Some parsed \<Rightarrow>
                         \<not> isSubdomainOf (urlDomain parsed) (domainAndRegistry frame))))) \<and>
   issueIsCausedByThirdParty fromString topFrame
     (i\<lparr>issueDetails := (issueDetails i)\<lparr>operation := oper\<rparr>\<rparr>) =
   issueIsCausedByThirdParty fromString topFrame i"
  by (auto simp: isCausedByThirdParty_def issueIsCausedByThirdParty_def
      split: option.splits)

theorem isCausedByThirdParty_decision_witness:
  "(\<lambda>s. if s = ''https://a.b.com/x'' then Some \<lparr>urlDomain = ''a.b.com''\<rparr> else None) [] = None \<and>
   isCausedByThirdParty
     (\<lambda>s. if s = ''https://a.b.com/x'' then Some \<lparr>urlDomain = ''a.b.com''\<rparr> else None)
     (Some \<lparr>domainAndRegistry = ''b.com''\<rparr>) (Some ''https://a.b.com/x'') = False \<and>
   isCausedByThirdParty
     (\<lambda>s. if s = ''https://a.b.com/x'' then Some \<lparr>urlDomain = ''a.b.com''\<rparr> else None)
     None (Some ''https://a.b.com/x'') = True"
proof -
  let ?f = "\<lambda>s. if s = ''https://a.b.com/x'' then Some \<lparr>urlDomain = ''a.b.com''\<rparr> else None"
  have h: "?f [] = None" by simp
  have a: "isCausedByThirdParty ?f (Some \<lparr>domainAndRegistry = ''b.com''\<rparr>)
             (Some ''https://a.b.com/x'') = False"
    using isCausedByThirdParty_decision
      [of ?f "Some \<lparr>domainAndRegistry = ''b.com''\<rparr>" "Some ''https://a.b.com/x''",
       THEN conjunct1, THEN mp, OF h]
    by (simp add: isSubdomainOf_def endsWith_def substr_def)
  have b: "isCausedByThirdParty ?f None (Some ''https://a.b.com/x'') = True"
    using isCausedByThirdParty_decision
      [of ?f None "Some ''https://a.b.com/x''", THEN conjunct1, THEN mp, OF h]
    by simp
  from h a b show ?thesis by simp
qed

end
